theory Spec2Isabelle
  imports Main "HOL-Library.Sublist" "HOL-Library.AList"
begin

section \<open>The PrecoZap service worker (sw.js)\<close>

text \<open>
  The worker is event driven: each listener of \<^verbatim>\<open>sw.js\<close> becomes a function that takes
  what the host hands to it (the request, the answer of \<^verbatim>\<open>fetch\<close>, the clock, the cache
  storage) and returns its result together with the cache storage it leaves behind.
  Strings are byte strings: the UTF-8 text of the source file.
\<close>

subsection \<open>Strings and numbers of the host language\<close>

definition startsWith :: "string \<Rightarrow> string \<Rightarrow> bool" where
  "startsWith s p = prefix p s"

text \<open>\<^verbatim>\<open>s.includes(t)\<close>: \<open>t\<close> occurs in \<open>s\<close> as a contiguous run.\<close>

fun str_includes :: "string \<Rightarrow> string \<Rightarrow> bool" where
  "str_includes [] t = (t = [])"
| "str_includes (c # s) t = (prefix t (c # s) \<or> str_includes s t)"

definition digit_char :: "nat \<Rightarrow> char" where
  "digit_char d = (''0123456789'' ! d)"

fun string_of_nat :: "nat \<Rightarrow> string" where
  "string_of_nat n =
     (if n < 10 then [digit_char n] else string_of_nat (n div 10) @ [digit_char (n mod 10)])"

text \<open>\<^verbatim>\<open>n.toString()\<close> for an integral number.\<close>

definition toString :: "int \<Rightarrow> string" where
  "toString i = (if i < 0 then CHR ''-'' # string_of_nat (nat (- i)) else string_of_nat (nat i))"

text \<open>
  The white space \<^verbatim>\<open>parseInt\<close> skips, among the characters a header value can hold
  (code units up to 255): tab, line feed, vertical tab, form feed, carriage return, space
  and the no-break space.
\<close>

definition isWhiteSpace :: "char \<Rightarrow> bool" where
  "isWhiteSpace c = (of_char c \<in> {9, 10, 11, 12, 13, 32, 160 :: nat})"

text \<open>The value of a digit or letter as \<^verbatim>\<open>parseInt\<close> reads it, in any radix up to 36.\<close>

definition digit_value :: "char \<Rightarrow> nat option" where
  "digit_value c =
     (let n = (of_char c :: nat) in
      if 48 \<le> n \<and> n \<le> 57 then Some (n - 48)
      else if 97 \<le> n \<and> n \<le> 122 then Some (n - 87)
      else if 65 \<le> n \<and> n \<le> 90 then Some (n - 55)
      else None)"

definition is_digit_in :: "nat \<Rightarrow> char \<Rightarrow> bool" where
  "is_digit_in radix c = (case digit_value c of None \<Rightarrow> False | Some d \<Rightarrow> d < radix)"

text \<open>
  \<^verbatim>\<open>parseInt(s)\<close> with no radix: leading white space is skipped, a sign is read, a prefix
  \<^verbatim>\<open>0x\<close> selects radix 16, and the longest run of digits is the value. \<open>None\<close> is
  \<^verbatim>\<open>NaN\<close>: no digit was found. The value is the mathematical integer; the host's number
  is its nearest double, which is the same number below \<open>2 ^ 53\<close> and has the same sign
  and order beyond.
\<close>

definition parseInt :: "string \<Rightarrow> int option" where
  "parseInt s =
     (let s1 = dropWhile isWhiteSpace s;
          sign = (if take 1 s1 = ''-'' then - 1 else 1 :: int);
          s2 = (if take 1 s1 = ''-'' \<or> take 1 s1 = ''+'' then drop 1 s1 else s1);
          hex = (take 2 s2 = ''0x'' \<or> take 2 s2 = ''0X'');
          radix = (if hex then 16 else 10 :: nat);
          s3 = (if hex then drop 2 s2 else s2);
          ds = takeWhile (is_digit_in radix) s3
      in if ds = [] then None
         else Some (sign * int (foldl (\<lambda>a c. a * radix + the (digit_value c)) 0 ds)))"

subsection \<open>JSON values and \<^verbatim>\<open>JSON.stringify\<close>\<close>

text \<open>Numbers are the integral ones; the worker itself serialises none.\<close>

datatype json =
    JNull
  | JBool bool
  | JNum int
  | JStr string
  | JArr "json list"
  | JObj "(string \<times> json) list"

fun join :: "string \<Rightarrow> string list \<Rightarrow> string" where
  "join sep [] = []"
| "join sep [x] = x"
| "join sep (x # y # ys) = x @ sep @ join sep (y # ys)"

text \<open>
  A string in double quotes, with the quote and the backslash escaped. (Control characters
  would need an escape too; none occurs in a string the worker serialises.)
\<close>

definition quote :: "string \<Rightarrow> string" where
  "quote s =
     [CHR 0x22] @
     concat (map (\<lambda>c. if c = CHR 0x22 \<or> c = CHR 0x5C then [CHR 0x5C, c] else [c]) s) @
     [CHR 0x22]"

fun stringify :: "json \<Rightarrow> string" where
  "stringify JNull = ''null''"
| "stringify (JBool b) = (if b then ''true'' else ''false'')"
| "stringify (JNum n) = toString n"
| "stringify (JStr s) = quote s"
| "stringify (JArr xs) = ''['' @ join '','' (map stringify xs) @ '']''"
| "stringify (JObj kvs) =
     ''{'' @ join '','' (map (\<lambda>(k, v). quote k @ '':'' @ stringify v) kvs) @ ''}''"

text \<open>Truthiness of a value, as \<^verbatim>\<open>||\<close> tests it.\<close>

fun truthy :: "json \<Rightarrow> bool" where
  "truthy JNull = False"
| "truthy (JBool b) = b"
| "truthy (JNum n) = (n \<noteq> 0)"
| "truthy (JStr s) = (s \<noteq> [])"
| "truthy (JArr xs) = True"
| "truthy (JObj kvs) = True"

text \<open>
  Reading a property: \<open>None\<close> is \<^verbatim>\<open>undefined\<close>. Only an object has the properties the
  worker reads (\<^verbatim>\<open>title\<close>, \<^verbatim>\<open>body\<close>, \<^verbatim>\<open>url\<close>); a later duplicate key wins, as in
  \<^verbatim>\<open>JSON.parse\<close>.
\<close>

fun get_prop :: "json \<Rightarrow> string \<Rightarrow> json option" where
  "get_prop (JObj kvs) k = map_of (rev kvs) k"
| "get_prop _ k = None"

text \<open>\<^verbatim>\<open>v || d\<close> for a possibly undefined \<open>v\<close>.\<close>

definition or_else :: "json option \<Rightarrow> json \<Rightarrow> json" where
  "or_else v d = (case v of None \<Rightarrow> d | Some j \<Rightarrow> if truthy j then j else d)"

subsection \<open>Requests, responses and the cache storage\<close>

text \<open>
  A request carries its \<^verbatim>\<open>url\<close> string and what \<^verbatim>\<open>new URL(request.url)\<close> reads from it.
\<close>

record request =
  req_method :: string
  url :: string
  hostname :: string
  origin :: string

text \<open>Header names are kept in lower case, as \<^verbatim>\<open>Headers\<close> normalises them.\<close>

type_synonym headers = "(string \<times> string) list"

record response =
  status :: nat
  headers :: headers
  body_text :: string

definition ok :: "response \<Rightarrow> bool" where
  "ok r = (200 \<le> status r \<and> status r \<le> 299)"

text \<open>
  A response built from a string body is given the content type of plain text, unless the
  headers it is built with name one.
\<close>

definition body_headers :: "headers \<Rightarrow> headers" where
  "body_headers hs =
     (if ''content-type'' \<in> set (map fst hs) then hs
      else hs @ [(''content-type'', ''text/plain;charset=UTF-8'')])"

text \<open>
  \<^verbatim>\<open>new Response(body, {status, headers})\<close> with a string body: the constructor throws for
  a status that admits no body (and for one outside 200..599). \<open>None\<close> is the throw.
\<close>

definition null_body_status :: "nat \<Rightarrow> bool" where
  "null_body_status s = (s \<in> {101, 103, 204, 205, 304})"

definition new_Response :: "string \<Rightarrow> nat \<Rightarrow> headers \<Rightarrow> response option" where
  "new_Response b s hs =
     (if s < 200 \<or> 599 < s \<or> null_body_status s then None
      else Some \<lparr>status = s, headers = body_headers hs, body_text = b\<rparr>)"

text \<open>
  A cache maps requests to responses; the cache storage keeps the named caches in the
  order of their creation, which is the order \<^verbatim>\<open>caches.match\<close> searches them in.
  \<^verbatim>\<open>open\<close> creates the cache when it is absent; \<^verbatim>\<open>put\<close> overwrites.
\<close>

type_synonym cache = "(request \<times> response) list"
type_synonym caches = "(string \<times> cache) list"

definition caches_keys :: "caches \<Rightarrow> string list" where
  "caches_keys cs = map fst cs"

definition caches_open :: "string \<Rightarrow> caches \<Rightarrow> caches" where
  "caches_open name cs = (if name \<in> set (map fst cs) then cs else cs @ [(name, [])])"

definition caches_delete :: "string \<Rightarrow> caches \<Rightarrow> caches" where
  "caches_delete name cs = AList.delete name cs"

text \<open>\<^verbatim>\<open>cache.match(request)\<close> on the cache opened under \<open>name\<close>.\<close>

definition cache_match :: "string \<Rightarrow> request \<Rightarrow> caches \<Rightarrow> response option" where
  "cache_match name rq cs = (case map_of cs name of None \<Rightarrow> None | Some c \<Rightarrow> map_of c rq)"

text \<open>
  What \<^verbatim>\<open>cache.put\<close> refuses: a request that is not a \<^verbatim>\<open>GET\<close> over \<^verbatim>\<open>http\<close> or
  \<^verbatim>\<open>https\<close>, a response of status 206, and a response whose \<^verbatim>\<open>Vary\<close> header has the
  member \<^verbatim>\<open>*\<close>. The promise is then rejected and nothing is stored.
\<close>

fun split_on :: "char \<Rightarrow> string \<Rightarrow> string list" where
  "split_on sep [] = [[]]"
| "split_on sep (c # s) =
     (if c = sep then [] # split_on sep s
      else (case split_on sep s of [] \<Rightarrow> [[c]] | x # xs \<Rightarrow> (c # x) # xs))"

definition trim :: "string \<Rightarrow> string" where
  "trim s =
     rev (dropWhile (\<lambda>c. c = CHR '' '' \<or> c = CHR 0x09)
       (rev (dropWhile (\<lambda>c. c = CHR '' '' \<or> c = CHR 0x09) s)))"

definition vary_star :: "response \<Rightarrow> bool" where
  "vary_star rs =
     (case map_of (headers rs) ''vary'' of
        None \<Rightarrow> False
      | Some v \<Rightarrow> list_ex (\<lambda>f. trim f = ''*'') (split_on (CHR '','') v))"

definition put_accepts :: "request \<Rightarrow> response \<Rightarrow> bool" where
  "put_accepts rq rs =
     ((startsWith (url rq) ''http:'' \<or> startsWith (url rq) ''https:'')
      \<and> req_method rq = ''GET'' \<and> status rs \<noteq> 206 \<and> \<not> vary_star rs)"

text \<open>
  \<^verbatim>\<open>cache.put(request, response)\<close> on the cache opened under \<open>name\<close>. The worker does not
  await it, so a refusal changes nothing but the storage.
\<close>

definition cache_put :: "string \<Rightarrow> request \<Rightarrow> response \<Rightarrow> caches \<Rightarrow> caches" where
  "cache_put name rq rs cs =
     (if put_accepts rq rs then AList.map_entry name (AList.update rq rs) cs else cs)"

text \<open>\<^verbatim>\<open>caches.match(request)\<close>: the first entry found, over all caches.\<close>

fun caches_match :: "request \<Rightarrow> caches \<Rightarrow> response option" where
  "caches_match rq [] = None"
| "caches_match rq ((name, c) # cs) =
     (case map_of c rq of Some rs \<Rightarrow> Some rs | None \<Rightarrow> caches_match rq cs)"

subsection \<open>The host\<close>

datatype fetch_result = Rejected | Resolved response

record host =
  fetch :: "request \<Rightarrow> fetch_result"
  Date_now :: int
  location_origin :: string

subsection \<open>Constants of the worker\<close>

definition CACHE_NAME :: string where
  "CACHE_NAME = ''precozap-v1''"

definition API_CACHE :: string where
  "API_CACHE = ''precozap-api-v1''"

subsection \<open>The strategies\<close>

text \<open>\<^verbatim>\<open>new Response('Offline', { status: 503 })\<close>.\<close>

definition offline_503 :: response where
  "offline_503 = \<lparr>status = 503, headers = body_headers [], body_text = ''Offline''\<rparr>"

text \<open>
  \<^verbatim>\<open>new Response(JSON.stringify(j), { headers: { 'Content-Type': 'application/json' } })\<close>.
\<close>

definition json_response :: "json \<Rightarrow> response" where
  "json_response j =
     \<lparr>status = 200, headers = body_headers [(''content-type'', ''application/json'')],
      body_text = stringify j\<rparr>"

definition cacheFirst :: "host \<Rightarrow> request \<Rightarrow> caches \<Rightarrow> response \<times> caches" where
  "cacheFirst h rq cs =
     (case caches_match rq cs of
        Some cached \<Rightarrow> (cached, cs)
      | None \<Rightarrow>
          (case fetch h rq of
             Resolved rs \<Rightarrow>
               (if ok rs then (rs, cache_put CACHE_NAME rq rs (caches_open CACHE_NAME cs))
                else (rs, cs))
           | Rejected \<Rightarrow> (offline_503, cs)))"

text \<open>
  The result is \<open>None\<close> when the promise resolves to \<^verbatim>\<open>undefined\<close>. The storage returned
  is the one left when the fetch has settled.
\<close>

definition staleWhileRevalidate :: "host \<Rightarrow> request \<Rightarrow> caches \<Rightarrow> response option \<times> caches" where
  "staleWhileRevalidate h rq cs =
     (let cs1 = caches_open CACHE_NAME cs;
          cached = cache_match CACHE_NAME rq cs1;
          (fetched, cs2) =
            (case fetch h rq of
               Resolved rs \<Rightarrow> (Some rs, if ok rs then cache_put CACHE_NAME rq rs cs1 else cs1)
             | Rejected \<Rightarrow> (cached, cs1))
      in (case cached of Some c \<Rightarrow> Some c | None \<Rightarrow> fetched, cs2))"

definition offline_stub :: response where
  "offline_stub = json_response (JObj [(''error'', JStr ''offline''), (''elements'', JArr [])])"

text \<open>The header read back in the catch branch: absent or empty reads as \<^verbatim>\<open>'0'\<close>.\<close>

definition cachedAt :: "response \<Rightarrow> int option" where
  "cachedAt cached =
     parseInt (case map_of (headers cached) ''sw-cached-at'' of
                 None \<Rightarrow> ''0''
               | Some v \<Rightarrow> if v = [] then ''0'' else v)"

text \<open>\<^verbatim>\<open>Date.now() - cachedAt < ttlMs\<close>; a comparison with \<^verbatim>\<open>NaN\<close> is false.\<close>

definition fresh :: "int \<Rightarrow> int \<Rightarrow> response \<Rightarrow> bool" where
  "fresh now ttlMs cached =
     (case cachedAt cached of None \<Rightarrow> False | Some t \<Rightarrow> now - t < ttlMs)"

text \<open>
  The catch block of \<^verbatim>\<open>networkFirstWithCache\<close>. It is entered when the fetch is
  rejected, when the response is not ok (\<^verbatim>\<open>throw new Error('bad response')\<close>), and when
  the constructor of the stamped copy throws. A run reads the clock once.
\<close>

definition networkFirst_catch :: "host \<Rightarrow> request \<Rightarrow> string \<Rightarrow> int \<Rightarrow> caches \<Rightarrow> response \<times> caches" where
  "networkFirst_catch h rq cacheName ttlMs cs =
     (let cs1 = caches_open cacheName cs in
      case cache_match cacheName rq cs1 of
        Some cached \<Rightarrow>
          if fresh (Date_now h) ttlMs cached then (cached, cs1) else (offline_stub, cs1)
      | None \<Rightarrow> (offline_stub, cs1))"

definition networkFirstWithCache :: "host \<Rightarrow> request \<Rightarrow> string \<Rightarrow> int \<Rightarrow> caches \<Rightarrow> response \<times> caches" where
  "networkFirstWithCache h rq cacheName ttlMs cs =
     (case fetch h rq of
        Resolved rs \<Rightarrow>
          if ok rs then
            (let cs1 = caches_open cacheName cs;
                 hs = AList.update ''sw-cached-at'' (toString (Date_now h)) (headers rs)
             in case new_Response (body_text rs) (status rs) hs of
                  Some cloned \<Rightarrow> (rs, cache_put cacheName rq cloned cs1)
                | None \<Rightarrow> networkFirst_catch h rq cacheName ttlMs cs1)
          else networkFirst_catch h rq cacheName ttlMs cs
      | Rejected \<Rightarrow> networkFirst_catch h rq cacheName ttlMs cs)"

subsection \<open>The fetch listener\<close>

definition server_offline :: response where
  "server_offline = json_response (JObj [(''error'', JStr ''Servidor offline''), (''ok'', JBool False)])"

text \<open>
  \<open>NotIntercepted\<close>: the listener returns without \<^verbatim>\<open>respondWith\<close>, and the host handles the
  request itself. \<open>RespondWith None\<close>: the promise handed to \<^verbatim>\<open>respondWith\<close> resolves to
  \<^verbatim>\<open>undefined\<close>, which the page sees as a failed fetch.
\<close>

datatype outcome = NotIntercepted | RespondWith "response option"

definition fetch_listener :: "host \<Rightarrow> request \<Rightarrow> caches \<Rightarrow> outcome \<times> caches" where
  "fetch_listener h rq cs =
     (if \<not> startsWith (url rq) ''http'' then (NotIntercepted, cs)
      else if hostname rq = ''localhost'' \<or> hostname rq = ''127.0.0.1'' then
        (RespondWith (Some (case fetch h rq of Resolved rs \<Rightarrow> rs | Rejected \<Rightarrow> server_offline)), cs)
      else if str_includes (hostname rq) ''openstreetmap'' \<or> str_includes (hostname rq) ''overpass-api''
              \<or> str_includes (hostname rq) ''nominatim'' then
        (let (rs, cs') = networkFirstWithCache h rq API_CACHE (30 * 60 * 1000) cs
         in (RespondWith (Some rs), cs'))
      else if str_includes (hostname rq) ''unpkg.com'' \<or> str_includes (hostname rq) ''fonts.googleapis''
              \<or> str_includes (hostname rq) ''fonts.gstatic'' then
        (let (rs, cs') = cacheFirst h rq cs in (RespondWith (Some rs), cs'))
      else if origin rq = location_origin h then
        (let (r, cs') = staleWhileRevalidate h rq cs in (RespondWith r, cs'))
      else (NotIntercepted, cs))"

subsection \<open>The activate listener\<close>

text \<open>
  What the listener asks of the host, in order: the deletions (all settled before the next
  step), then \<^verbatim>\<open>clients.claim()\<close>. The two names kept are the module constants; they are
  parameters here so that the listener can be read at other names too.
\<close>

datatype effect = Delete string | Claim

definition activate :: "string \<Rightarrow> string \<Rightarrow> caches \<Rightarrow> effect list \<times> caches" where
  "activate shell api cs =
     (let doomed = filter (\<lambda>k. k \<noteq> shell \<and> k \<noteq> api) (caches_keys cs)
      in (map Delete doomed @ [Claim], fold caches_delete doomed cs))"

definition activate_listener :: "caches \<Rightarrow> effect list \<times> caches" where
  "activate_listener = activate CACHE_NAME API_CACHE"

subsection \<open>The push listener\<close>

text \<open>
  \<^verbatim>\<open>event.data\<close> is absent (\<open>None\<close>) or present; when present, \<^verbatim>\<open>event.data.json()\<close>
  either throws (the payload is not JSON) or gives the parsed value.
\<close>

datatype push_data = NotJSON | Parsed json

datatype error = SyntaxError

record notification =
  title :: json
  body :: json
  icon :: string
  badge :: string
  vibrate :: "nat list"
  data_url :: json

definition default_title :: string where
  "default_title = ''Pre'' @ [CHR 0xC3, CHR 0xA7] @ ''oZap '' @ [CHR 0xE2, CHR 0x9A, CHR 0xA1]"

definition default_body :: string where
  "default_body =
     ''Novos pre'' @ [CHR 0xC3, CHR 0xA7] @ ''os dispon'' @ [CHR 0xC3, CHR 0xAD] @ ''veis!''"

definition showNotification :: "json \<Rightarrow> notification" where
  "showNotification d =
     \<lparr>title = or_else (get_prop d ''title'') (JStr default_title),
      body = or_else (get_prop d ''body'') (JStr default_body),
      icon = ''/icons/icon-192x192.png'',
      badge = ''/icons/icon-96x96.png'',
      vibrate = [200, 100, 200],
      data_url = or_else (get_prop d ''url'') (JStr ''/'')\<rparr>"

definition push_listener :: "push_data option \<Rightarrow> error + notification" where
  "push_listener d =
     (case d of
        None \<Rightarrow> Inr (showNotification (JObj []))
      | Some NotJSON \<Rightarrow> Inl SyntaxError
      | Some (Parsed j) \<Rightarrow> Inr (showNotification (or_else (Some j) (JObj []))))"

subsection \<open>The specification's reading of the listener\<close>

text \<open>
  The request classifier as the specification words it: an ordered list of tests, the
  first that holds decides the category, and each category has its algorithm.
\<close>

datatype category = Ignored | LocalDevAPI | GeoDataAPI | ExternalCDN | SameOriginShell

definition non_http :: "request \<Rightarrow> bool" where
  "non_http rq = (\<not> startsWith (url rq) ''http'')"

definition loopback :: "request \<Rightarrow> bool" where
  "loopback rq = (hostname rq \<in> {''localhost'', ''127.0.0.1''})"

definition geo_markers :: "string list" where
  "geo_markers = [''openstreetmap'', ''overpass-api'', ''nominatim'']"

definition cdn_markers :: "string list" where
  "cdn_markers = [''unpkg.com'', ''fonts.googleapis'', ''fonts.gstatic'']"

definition has_marker :: "string list \<Rightarrow> request \<Rightarrow> bool" where
  "has_marker ms rq = list_ex (str_includes (hostname rq)) ms"

definition classification_rules :: "string \<Rightarrow> ((request \<Rightarrow> bool) \<times> category) list" where
  "classification_rules own =
     [(non_http, Ignored),
      (loopback, LocalDevAPI),
      (has_marker geo_markers, GeoDataAPI),
      (has_marker cdn_markers, ExternalCDN),
      (\<lambda>rq. origin rq = own, SameOriginShell)]"

definition classify :: "string \<Rightarrow> request \<Rightarrow> category" where
  "classify own rq =
     (case find (\<lambda>(p, c). p rq) (classification_rules own) of
        None \<Rightarrow> Ignored
      | Some (p, c) \<Rightarrow> c)"

text \<open>Network-only with the JSON fallback; it has no cache storage to change.\<close>

definition networkOnly :: "host \<Rightarrow> request \<Rightarrow> response" where
  "networkOnly h rq = (case fetch h rq of Resolved rs \<Rightarrow> rs | Rejected \<Rightarrow> server_offline)"

definition TTL :: int where
  "TTL = 30 * 60 * 1000"

fun algorithm :: "category \<Rightarrow> host \<Rightarrow> request \<Rightarrow> caches \<Rightarrow> outcome \<times> caches" where
  "algorithm Ignored h rq cs = (NotIntercepted, cs)"
| "algorithm LocalDevAPI h rq cs = (RespondWith (Some (networkOnly h rq)), cs)"
| "algorithm GeoDataAPI h rq cs =
     (RespondWith (Some (fst (networkFirstWithCache h rq API_CACHE TTL cs))),
      snd (networkFirstWithCache h rq API_CACHE TTL cs))"
| "algorithm ExternalCDN h rq cs =
     (RespondWith (Some (fst (cacheFirst h rq cs))), snd (cacheFirst h rq cs))"
| "algorithm SameOriginShell h rq cs =
     (RespondWith (fst (staleWhileRevalidate h rq cs)), snd (staleWhileRevalidate h rq cs))"

text \<open>
  The store manager's \<open>put\<close> as the specification words it: it overwrites any existing
  entry and has no error condition.
\<close>

definition store_put :: "string \<Rightarrow> request \<Rightarrow> response \<Rightarrow> caches \<Rightarrow> caches" where
  "store_put name rq rs cs = AList.map_entry name (AList.update rq rs) cs"

text \<open>
  Cache-first as the specification words it: the lookup is in the shell store, and every
  ok response of the network is stored there.
\<close>

definition cacheFirst_spec :: "host \<Rightarrow> request \<Rightarrow> caches \<Rightarrow> response \<times> caches" where
  "cacheFirst_spec h rq cs =
     (case cache_match CACHE_NAME rq cs of
        Some cached \<Rightarrow> (cached, cs)
      | None \<Rightarrow>
          (case fetch h rq of
             Resolved rs \<Rightarrow>
               (if ok rs then (rs, store_put CACHE_NAME rq rs (caches_open CACHE_NAME cs))
                else (rs, cs))
           | Rejected \<Rightarrow> (offline_503, cs)))"

text \<open>No store but the shell store holds the request.\<close>

definition shell_only :: "request \<Rightarrow> caches \<Rightarrow> bool" where
  "shell_only rq cs =
     (distinct (map fst cs)
      \<and> list_all (\<lambda>(name, c). name = CACHE_NAME \<or> map_of c rq = None) cs)"

text \<open>
  A cache storage as the worker itself fills it: the two stores of the module at most, the
  API store keyed by geo-data requests only.
\<close>

definition own_storage :: "string \<Rightarrow> caches \<Rightarrow> bool" where
  "own_storage own cs =
     (distinct (map fst cs)
      \<and> list_all (\<lambda>(name, c). name = CACHE_NAME
           \<or> (name = API_CACHE \<and> list_all (\<lambda>(q, r). classify own q = GeoDataAPI) c)) cs)"

text \<open>The network outcome that network-first treats as failure.\<close>

definition fetch_failed :: "host \<Rightarrow> request \<Rightarrow> bool" where
  "fetch_failed h rq = (case fetch h rq of Rejected \<Rightarrow> True | Resolved rs \<Rightarrow> \<not> ok rs)"

text \<open>Every response held in any cache has an ok status.\<close>

definition all_ok :: "caches \<Rightarrow> bool" where
  "all_ok cs = list_all (\<lambda>(name, c). list_all (\<lambda>(rq, rs). ok rs) c) cs"

subsection \<open>Sample hosts, requests and responses\<close>

definition sample_origin :: string where
  "sample_origin = ''https://precozap.app''"

definition offline_host :: "int \<Rightarrow> host" where
  "offline_host now = \<lparr>fetch = (\<lambda>rq. Rejected), Date_now = now, location_origin = sample_origin\<rparr>"

definition online_host :: "response \<Rightarrow> int \<Rightarrow> host" where
  "online_host rs now = \<lparr>fetch = (\<lambda>rq. Resolved rs), Date_now = now, location_origin = sample_origin\<rparr>"

definition geo_request :: request where
  "geo_request = \<lparr>req_method = ''GET'', url = ''https://overpass-api.de/api/interpreter'',
     hostname = ''overpass-api.de'', origin = ''https://overpass-api.de''\<rparr>"

definition geo_answer :: response where
  "geo_answer = \<lparr>status = 200, headers = [(''content-type'', ''application/json'')],
     body_text = ''{}''\<rparr>"

definition cdn_request :: request where
  "cdn_request = \<lparr>req_method = ''GET'', url = ''https://unpkg.com/leaflet/dist/leaflet.js'',
     hostname = ''unpkg.com'', origin = ''https://unpkg.com''\<rparr>"

definition cdn_answer :: response where
  "cdn_answer = \<lparr>status = 200, headers = [(''content-type'', ''text/javascript'')],
     body_text = ''new''\<rparr>"

definition cdn_old :: response where
  "cdn_old = \<lparr>status = 200, headers = [(''content-type'', ''text/javascript'')],
     body_text = ''old''\<rparr>"

definition partial_answer :: response where
  "partial_answer = \<lparr>status = 206,
     headers = [(''content-type'', ''text/javascript''), (''content-range'', ''bytes 0-2/9'')],
     body_text = ''new''\<rparr>"

definition cdn_missing :: response where
  "cdn_missing = \<lparr>status = 404, headers = [(''content-type'', ''text/plain'')],
     body_text = ''Not found''\<rparr>"

definition shell_request :: request where
  "shell_request = \<lparr>req_method = ''GET'', url = ''https://precozap.app/index.html'',
     hostname = ''precozap.app'', origin = ''https://precozap.app''\<rparr>"

definition shell_entry :: response where
  "shell_entry = \<lparr>status = 200, headers = [(''content-type'', ''text/html'')],
     body_text = ''<html></html>''\<rparr>"

definition local_request :: request where
  "local_request = \<lparr>req_method = ''POST'', url = ''http://localhost:3000/api/compare'',
     hostname = ''localhost'', origin = ''http://localhost:3000''\<rparr>"

definition bare_entry :: response where
  "bare_entry = \<lparr>status = 200, headers = [(''content-type'', ''application/json'')],
     body_text = ''{}''\<rparr>"

definition geo_stored :: response where
  "geo_stored = \<lparr>status = 200,
     headers = [(''content-type'', ''application/json''), (''sw-cached-at'', ''1700000000000'')],
     body_text = ''{}''\<rparr>"

definition sample_payload :: json where
  "sample_payload = JObj [(''title'', JStr ''X''), (''body'', JStr ''Y''), (''url'', JStr ''/z'')]"

section \<open>Properties\<close>


subsection \<open>Supporting facts\<close>

lemma str_includes_sublist: "str_includes s t = sublist t s"
  by (induction s) (auto simp: sublist_Cons_right)

lemma parseInt_examples:
  "parseInt ''1700000000000'' = Some 1700000000000"
  "parseInt '' -0x1Fz'' = Some (- 31)"
  "parseInt ''12.5e3'' = Some 12"
  "parseInt ''abc'' = None"
  "parseInt [] = None"
  by (simp_all add: parseInt_def isWhiteSpace_def is_digit_in_def digit_value_def Let_def)

lemma vary_star_examples:
  "vary_star \<lparr>status = 200, headers = [(''vary'', ''Accept-Encoding, *'')], body_text = []\<rparr>"
  "\<not> vary_star \<lparr>status = 200, headers = [(''vary'', ''Accept-Encoding'')], body_text = []\<rparr>"
  "\<not> vary_star \<lparr>status = 200, headers = [], body_text = []\<rparr>"
  by (simp_all add: vary_star_def trim_def)

text \<open>The decimal text of a number is read back as that number.\<close>

lemma digit_char_cases:
  assumes "d < 10"
  shows "digit_char d \<in> set ''0123456789'' \<and> digit_value (digit_char d) = Some d"
proof -
  from assms have "d \<in> {0, 1, 2, 3, 4, 5, 6, 7, 8, 9}" by auto
  then show ?thesis
    by (auto simp: digit_char_def digit_value_def)
qed

lemma decimal_char_facts:
  assumes "c \<in> set ''0123456789''"
  shows "\<not> isWhiteSpace c" "c \<noteq> CHR ''-''" "c \<noteq> CHR ''+''" "c \<noteq> CHR ''x''" "c \<noteq> CHR ''X''"
    "is_digit_in 10 c"
  using assms by (auto simp: isWhiteSpace_def is_digit_in_def digit_value_def)

lemma string_of_nat_chars: "set (string_of_nat n) \<subseteq> set ''0123456789''"
proof (induction n rule: string_of_nat.induct)
  case (1 n)
  show ?case
  proof (cases "n < 10")
    case True
    then show ?thesis
      using digit_char_cases [of n] by (subst string_of_nat.simps) (simp del: string_of_nat.simps)
  next
    case False
    then show ?thesis
      using 1 digit_char_cases [of "n mod 10"] by (subst string_of_nat.simps) (simp del: string_of_nat.simps)
  qed
qed

lemma string_of_nat_nonempty: "string_of_nat n \<noteq> []"
  by (subst string_of_nat.simps) (simp del: string_of_nat.simps)

lemma string_of_nat_value:
  "foldl (\<lambda>a c. a * 10 + the (digit_value c)) 0 (string_of_nat n) = n"
proof (induction n rule: string_of_nat.induct)
  case (1 n)
  show ?case
  proof (cases "n < 10")
    case True
    then show ?thesis
      using digit_char_cases [of n] by (subst string_of_nat.simps) (simp del: string_of_nat.simps)
  next
    case False
    then show ?thesis
      using 1 digit_char_cases [of "n mod 10"] by (subst string_of_nat.simps) (simp del: string_of_nat.simps)
  qed
qed

lemma parseInt_decimal:
  assumes "s \<noteq> []" and "set s \<subseteq> set ''0123456789''"
  shows "parseInt s = Some (int (foldl (\<lambda>a c. a * 10 + the (digit_value c)) 0 s))"
    and "parseInt (CHR ''-'' # s) = Some (- int (foldl (\<lambda>a c. a * 10 + the (digit_value c)) 0 s))"
proof -
  obtain c s' where s: "s = c # s'" using assms(1) by (cases s) auto
  have c: "c \<in> set ''0123456789''" using assms(2) s by auto
  have all: "takeWhile (is_digit_in 10) (c # s') = c # s'"
    using assms(2) decimal_char_facts(6) unfolding s
    by (intro takeWhile_eq_all_conv [THEN iffD2]) blast
  have second: "take 1 s' \<noteq> ''x''" "take 1 s' \<noteq> ''X''"
  proof -
    show "take 1 s' \<noteq> ''x''"
    proof (cases s')
      case Nil
      then show ?thesis by simp
    next
      case (Cons d s'')
      then have "d \<in> set ''0123456789''" using assms(2) s by auto
      then show ?thesis using Cons decimal_char_facts(4) by auto
    qed
    show "take 1 s' \<noteq> ''X''"
    proof (cases s')
      case Nil
      then show ?thesis by simp
    next
      case (Cons d s'')
      then have "d \<in> set ''0123456789''" using assms(2) s by auto
      then show ?thesis using Cons decimal_char_facts(5) by auto
    qed
  qed
  have nohex: "take 2 (c # s') \<noteq> ''0x''" "take 2 (c # s') \<noteq> ''0X''"
    using second by (simp_all add: take_Cons')
  have ws: "dropWhile isWhiteSpace (c # s') = c # s'"
    using decimal_char_facts(1) [OF c] by simp
  have sg: "take 1 (c # s') \<noteq> ''-''" "take 1 (c # s') \<noteq> ''+''"
    using decimal_char_facts(2,3) [OF c] by auto
  show "parseInt s = Some (int (foldl (\<lambda>a c. a * 10 + the (digit_value c)) 0 s))"
    unfolding s parseInt_def ws Let_def using sg nohex all
    by (simp only: if_False drop_0 list.distinct simp_thms) simp
  have m: "dropWhile isWhiteSpace (CHR ''-'' # c # s') = CHR ''-'' # c # s'"
    by (simp add: isWhiteSpace_def)
  have t: "take 1 (CHR ''-'' # c # s') = ''-''" "drop 1 (CHR ''-'' # c # s') = c # s'"
    by simp_all
  show "parseInt (CHR ''-'' # s) = Some (- int (foldl (\<lambda>a c. a * 10 + the (digit_value c)) 0 s))"
    unfolding s parseInt_def m Let_def t using nohex all
    by (simp only: if_True if_False simp_thms list.distinct) simp
qed

lemma parseInt_toString: "parseInt (toString t) = Some t"
proof (cases "t < 0")
  case True
  then show ?thesis
    using parseInt_decimal(2) [OF string_of_nat_nonempty string_of_nat_chars, of "nat (- t)"]
    by (simp add: toString_def string_of_nat_value del: string_of_nat.simps)
next
  case False
  then show ?thesis
    using parseInt_decimal(1) [OF string_of_nat_nonempty string_of_nat_chars, of "nat t"]
    by (simp add: toString_def string_of_nat_value del: string_of_nat.simps)
qed

lemma classify_unfold:
  "classify own rq =
     (if non_http rq then Ignored
      else if loopback rq then LocalDevAPI
      else if has_marker geo_markers rq then GeoDataAPI
      else if has_marker cdn_markers rq then ExternalCDN
      else if origin rq = own then SameOriginShell
      else Ignored)"
  by (simp add: classify_def classification_rules_def)

lemma fetch_listener_algorithm:
  "fetch_listener h rq cs = algorithm (classify (location_origin h) rq) h rq cs"
  by (simp add: classify_unfold fetch_listener_def non_http_def loopback_def has_marker_def
      geo_markers_def cdn_markers_def networkOnly_def TTL_def split: prod.splits)

lemma offline_stub_eval:
  \<open>offline_stub = \<lparr>status = 200, headers = [(''content-type'', ''application/json'')],
      body_text = ''{"error":"offline","elements":[]}''\<rparr>\<close>
  by (simp add: offline_stub_def json_response_def body_headers_def quote_def)

lemma server_offline_eval:
  \<open>server_offline = \<lparr>status = 200, headers = [(''content-type'', ''application/json'')],
      body_text = ''{"error":"Servidor offline","ok":false}''\<rparr>\<close>
  by (simp add: server_offline_def json_response_def body_headers_def quote_def)

lemma cache_match_open: "cache_match name rq (caches_open name' cs) = cache_match name rq cs"
proof (cases "name' \<in> set (map fst cs)")
  case True
  then show ?thesis by (simp add: caches_open_def)
next
  case False
  show ?thesis
  proof (cases "map_of cs name")
    case None
    then show ?thesis using False
      by (simp add: cache_match_def caches_open_def map_add_def)
  next
    case (Some c)
    then show ?thesis using False
      by (simp add: cache_match_def caches_open_def map_add_def)
  qed
qed

lemma map_of_map_entry_same:
  "map_of (AList.map_entry k f xs) k = map_option f (map_of xs k)"
  by (simp add: map_of_map_entry split: option.splits)

lemma cache_match_put_same:
  "put_accepts rq rs \<Longrightarrow> name \<in> set (map fst cs) \<Longrightarrow>
     cache_match name rq (cache_put name rq rs cs) = Some rs"
  by (cases "map_of cs name")
     (auto simp: cache_match_def cache_put_def map_of_map_entry update_conv' map_of_eq_None_iff)

lemma open_mem: "name \<in> set (map fst (caches_open name cs))"
  by (simp add: caches_open_def)

lemma cache_match_put_open:
  "put_accepts rq rs \<Longrightarrow>
     cache_match name rq (cache_put name rq rs (caches_open name cs)) = Some rs"
  by (rule cache_match_put_same, assumption, rule open_mem)

lemma catch_fst:
  "fst (networkFirst_catch h rq name ttl cs) =
     (case cache_match name rq cs of
        Some cached \<Rightarrow> if fresh (Date_now h) ttl cached then cached else offline_stub
      | None \<Rightarrow> offline_stub)"
  by (simp add: networkFirst_catch_def Let_def cache_match_open split: option.splits)

lemma networkFirst_failed:
  "fetch_failed h rq \<Longrightarrow>
     networkFirstWithCache h rq name ttl cs = networkFirst_catch h rq name ttl cs"
  by (simp add: networkFirstWithCache_def fetch_failed_def split: fetch_result.splits)


text \<open>
  C4. The fetch listener decides by the specification's ordered tests, the first that
  holds winning: a URL that does not start with \<^verbatim>\<open>http\<close> is ignored; a loopback
  hostname is network-only; a geo-data marker in the hostname is network-first with the
  API store and 30 minutes; a CDN marker is cache-first; the worker's own origin is
  stale-while-revalidate; anything else is ignored. The "non-HTTP scheme" of the claim is
  the listener's own test on the URL string, and "the worker's own origin" is compared
  with the origin of the URL.
\<close>

theorem fetch_listener_classifies:
  "fetch_listener h rq cs = algorithm (classify (location_origin h) rq) h rq cs
   \<and> classify own rq =
       (if \<not> startsWith (url rq) ''http'' then Ignored
        else if hostname rq = ''localhost'' \<or> hostname rq = ''127.0.0.1'' then LocalDevAPI
        else if str_includes (hostname rq) ''openstreetmap''
                \<or> str_includes (hostname rq) ''overpass-api''
                \<or> str_includes (hostname rq) ''nominatim'' then GeoDataAPI
        else if str_includes (hostname rq) ''unpkg.com''
                \<or> str_includes (hostname rq) ''fonts.googleapis''
                \<or> str_includes (hostname rq) ''fonts.gstatic'' then ExternalCDN
        else if origin rq = own then SameOriginShell
        else Ignored)
   \<and> algorithm Ignored h rq cs = (NotIntercepted, cs)"
proof (intro conjI)
  show "fetch_listener h rq cs = algorithm (classify (location_origin h) rq) h rq cs"
    by (rule fetch_listener_algorithm)
  show "classify own rq =
       (if \<not> startsWith (url rq) ''http'' then Ignored
        else if hostname rq = ''localhost'' \<or> hostname rq = ''127.0.0.1'' then LocalDevAPI
        else if str_includes (hostname rq) ''openstreetmap''
                \<or> str_includes (hostname rq) ''overpass-api''
                \<or> str_includes (hostname rq) ''nominatim'' then GeoDataAPI
        else if str_includes (hostname rq) ''unpkg.com''
                \<or> str_includes (hostname rq) ''fonts.googleapis''
                \<or> str_includes (hostname rq) ''fonts.gstatic'' then ExternalCDN
        else if origin rq = own then SameOriginShell
        else Ignored)"
    by (simp add: classify_unfold non_http_def loopback_def has_marker_def geo_markers_def
        cdn_markers_def)
  show "algorithm Ignored h rq cs = (NotIntercepted, cs)"
    by simp
qed

lemma cachedAt_stamped:
  "map_of (headers cached) ''sw-cached-at'' = Some (toString t) \<Longrightarrow> cachedAt cached = Some t"
proof -
  assume a: "map_of (headers cached) ''sw-cached-at'' = Some (toString t)"
  have "toString t \<noteq> []"
    by (simp add: toString_def string_of_nat_nonempty del: string_of_nat.simps)
  then show ?thesis
    using a by (simp add: cachedAt_def parseInt_toString)
qed

lemma map_of_body_headers:
  "k \<noteq> ''content-type'' \<Longrightarrow> map_of (body_headers hs) k = map_of hs k"
  by (simp add: body_headers_def map_add_def split: option.splits)

text \<open>
  What a successful run leaves in the store: the copy of the response, stamped with the
  clock's reading, which the catch branch reads back as that reading.
\<close>

lemma network_first_stores_stamp:
  assumes "fetch h rq = Resolved rs" and "ok rs" and "\<not> null_body_status (status rs)"
    and "cloned = \<lparr>status = status rs,
        headers = body_headers (AList.update ''sw-cached-at'' (toString (Date_now h)) (headers rs)),
        body_text = body_text rs\<rparr>"
    and "put_accepts rq cloned"
  shows "networkFirstWithCache h rq name ttl cs =
      (rs, cache_put name rq cloned (caches_open name cs))"
    and "cache_match name rq (snd (networkFirstWithCache h rq name ttl cs)) = Some cloned"
    and "map_of (headers cloned) ''sw-cached-at'' = Some (toString (Date_now h))"
    and "cachedAt cloned = Some (Date_now h)"
proof -
  have n: "new_Response (body_text rs) (status rs)
      (AList.update ''sw-cached-at'' (toString (Date_now h)) (headers rs)) = Some cloned"
    using assms(2,3,4) by (simp add: new_Response_def ok_def)
  show 1: "networkFirstWithCache h rq name ttl cs =
      (rs, cache_put name rq cloned (caches_open name cs))"
    using assms(1,2) n by (simp add: networkFirstWithCache_def Let_def)
  show "cache_match name rq (snd (networkFirstWithCache h rq name ttl cs)) = Some cloned"
    unfolding 1 using assms(5) by (simp add: cache_match_put_open)
  show 3: "map_of (headers cloned) ''sw-cached-at'' = Some (toString (Date_now h))"
    using assms(4) by (simp add: map_of_body_headers update_conv')
  show "cachedAt cloned = Some (Date_now h)"
    using 3 by (rule cachedAt_stamped)
qed

text \<open>
  C1. For a geo-data request whose fetch is rejected or resolves to a response that is not
  ok, the listener answers from the API store: with the entry when the stamp \<open>t\<close> read
  from its \<^verbatim>\<open>sw-cached-at\<close> header has \<open>now - t < 30 * 60 * 1000\<close>, and with the offline
  stub otherwise (no entry, an unreadable stamp, or an age of 30 minutes or more). For an
  entry stamped with the decimal text of \<open>t\<close>, as the worker stamps it, the stamp read
  is \<open>t\<close>: the entry is the answer when \<open>now - t\<close> is below 30 minutes and the stub is
  the answer from 30 minutes on.
\<close>

theorem network_first_fallback:
  assumes "classify (location_origin h) rq = GeoDataAPI"
    and "fetch_failed h rq"
  shows \<open>fst (fetch_listener h rq cs) =
      RespondWith (Some
        (case cache_match API_CACHE rq cs of
           Some cached \<Rightarrow>
             if (\<exists>t. cachedAt cached = Some t \<and> Date_now h - t < 30 * 60 * 1000)
             then cached else offline_stub
         | None \<Rightarrow> offline_stub))
    \<and> offline_stub = \<lparr>status = 200, headers = [(''content-type'', ''application/json'')],
          body_text = ''{"error":"offline","elements":[]}''\<rparr>
    \<and> (cache_match API_CACHE rq cs = Some entry
         \<and> map_of (headers entry) ''sw-cached-at'' = Some (toString t) \<longrightarrow>
       fst (fetch_listener h rq cs) =
         RespondWith (Some (if Date_now h - t < 30 * 60 * 1000 then entry else offline_stub)))
    \<and> (cache_match API_CACHE rq cs = None \<longrightarrow>
       fst (fetch_listener h rq cs) = RespondWith (Some offline_stub))\<close>
proof -
  have l: "fst (fetch_listener h rq cs) =
      RespondWith (Some (fst (networkFirst_catch h rq API_CACHE TTL cs)))"
    using assms by (simp add: fetch_listener_algorithm networkFirst_failed)
  have f: "fresh now TTL c = (\<exists>t. cachedAt c = Some t \<and> now - t < 30 * 60 * 1000)" for now c
    by (simp add: fresh_def TTL_def split: option.splits)
  have 1: "fst (fetch_listener h rq cs) =
      RespondWith (Some
        (case cache_match API_CACHE rq cs of
           Some cached \<Rightarrow>
             if (\<exists>t. cachedAt cached = Some t \<and> Date_now h - t < 30 * 60 * 1000)
             then cached else offline_stub
         | None \<Rightarrow> offline_stub))"
    using l by (simp add: catch_fst f split: option.splits)
  have 3: "fst (fetch_listener h rq cs) =
      RespondWith (Some (if Date_now h - t < 30 * 60 * 1000 then entry else offline_stub))"
    if "cache_match API_CACHE rq cs = Some entry"
      and "map_of (headers entry) ''sw-cached-at'' = Some (toString t)"
    using that(1) cachedAt_stamped [OF that(2)] unfolding 1 by simp
  have 4: "fst (fetch_listener h rq cs) = RespondWith (Some offline_stub)"
    if "cache_match API_CACHE rq cs = None"
    using that unfolding 1 by simp
  from 1 3 4 offline_stub_eval show ?thesis by blast
qed

lemmas eval_defs = classify_unfold non_http_def loopback_def has_marker_def geo_markers_def
  cdn_markers_def startsWith_def fetch_failed_def ok_def offline_host_def online_host_def
  sample_origin_def geo_request_def geo_answer_def cdn_request_def shell_request_def
  local_request_def bare_entry_def shell_entry_def cdn_answer_def CACHE_NAME_def
  API_CACHE_def
  fetch_listener_def networkFirstWithCache_def networkFirst_catch_def cacheFirst_def
  staleWhileRevalidate_def caches_open_def cache_match_def cache_put_def put_accepts_def
  vary_star_def new_Response_def body_headers_def
  null_body_status_def toString_def digit_char_def fresh_def cachedAt_def parseInt_def
  isWhiteSpace_def is_digit_in_def digit_value_def Let_def

text \<open>
  Runs of C1. A successful fetch at 1700000000000 stores the answer with its stamp. With
  the network down, the stored entry is the answer 1000 seconds later, and the stub is the
  answer 1800 seconds later and when nothing is stored.
\<close>

theorem network_first_fallback_witness:
  \<open>classify (location_origin (offline_host 1700001000000)) geo_request = GeoDataAPI
   \<and> fetch_failed (offline_host 1700001000000) geo_request
   \<and> snd (fetch_listener (online_host geo_answer 1700000000000) geo_request []) =
       [(API_CACHE, [(geo_request, geo_stored)])]
   \<and> map_of (headers geo_stored) ''sw-cached-at'' = Some (toString 1700000000000)
   \<and> fst (fetch_listener (offline_host 1700001000000) geo_request
        [(API_CACHE, [(geo_request, geo_stored)])]) = RespondWith (Some geo_stored)
   \<and> fst (fetch_listener (offline_host 1700001800000) geo_request
        [(API_CACHE, [(geo_request, geo_stored)])]) = RespondWith (Some offline_stub)
   \<and> fst (fetch_listener (offline_host 1700001000000) geo_request []) =
       RespondWith (Some offline_stub)
   \<and> body_text offline_stub = ''{"error":"offline","elements":[]}''\<close>
proof -
  have c: "classify (location_origin (offline_host now)) geo_request = GeoDataAPI" for now
    by (simp add: eval_defs)
  have f: "fetch_failed (offline_host now) geo_request" for now
    by (simp add: eval_defs)
  have s: "snd (fetch_listener (online_host geo_answer 1700000000000) geo_request []) =
      [(API_CACHE, [(geo_request, geo_stored)])]"
    by (simp add: eval_defs geo_stored_def)
  have m: "cache_match API_CACHE geo_request [(API_CACHE, [(geo_request, geo_stored)])] =
      Some geo_stored"
    by (simp add: cache_match_def)
  have e: "cache_match API_CACHE geo_request [] = None"
    by (simp add: cache_match_def)
  have t: "map_of (headers geo_stored) ''sw-cached-at'' = Some (toString 1700000000000)"
    by (simp add: geo_stored_def toString_def digit_char_def)
  have d: "Date_now (offline_host now) = now" for now
    by (simp add: offline_host_def)
  note fresh_run = network_first_fallback [OF c f,
      of 1700001000000 "[(API_CACHE, [(geo_request, geo_stored)])]" geo_stored 1700000000000]
  note stale_run = network_first_fallback [OF c f,
      of 1700001800000 "[(API_CACHE, [(geo_request, geo_stored)])]" geo_stored 1700000000000]
  note empty_run = network_first_fallback [OF c f, of 1700001000000 "[]" geo_stored 0]
  have r1: "fst (fetch_listener (offline_host 1700001000000) geo_request
      [(API_CACHE, [(geo_request, geo_stored)])]) = RespondWith (Some geo_stored)"
    using fresh_run [THEN conjunct2, THEN conjunct2, THEN conjunct1] m t
    by (simp only: d) simp
  have r2: "fst (fetch_listener (offline_host 1700001800000) geo_request
      [(API_CACHE, [(geo_request, geo_stored)])]) = RespondWith (Some offline_stub)"
    using stale_run [THEN conjunct2, THEN conjunct2, THEN conjunct1] m t
    by (simp only: d) simp
  have r3: "fst (fetch_listener (offline_host 1700001000000) geo_request []) =
      RespondWith (Some offline_stub)"
    using empty_run [THEN conjunct2, THEN conjunct2, THEN conjunct2] e by simp
  have b: \<open>body_text offline_stub = ''{"error":"offline","elements":[]}''\<close>
    by (subst fresh_run [THEN conjunct2, THEN conjunct1]) simp
  from c [of 1700001000000] f [of 1700001000000] s t r1 r2 r3 b show ?thesis
    by (intro conjI)
qed

subsection \<open>Cache-first\<close>

lemma offline_503_eval:
  "offline_503 = \<lparr>status = 503, headers = [(''content-type'', ''text/plain;charset=UTF-8'')],
     body_text = ''Offline''\<rparr>"
  by (simp add: offline_503_def body_headers_def)

text \<open>\<^verbatim>\<open>caches.match\<close> goes through the stores in their order.\<close>

lemma caches_match_examples:
  "caches_match cdn_request [(CACHE_NAME, []), (API_CACHE, [(cdn_request, cdn_old)])] = Some cdn_old"
  "caches_match cdn_request
     [(CACHE_NAME, [(cdn_request, cdn_answer)]), (API_CACHE, [(cdn_request, cdn_old)])] =
   Some cdn_answer"
  "caches_match cdn_request [(CACHE_NAME, []), (API_CACHE, [])] = None"
  by simp_all

text \<open>
  Where no store other than the shell store holds the request, the lookup over all stores
  is the lookup in the shell store.
\<close>

lemma caches_match_elsewhere_empty:
  assumes "\<forall>(name, c) \<in> set cs. name \<noteq> CACHE_NAME \<longrightarrow> map_of c rq = None"
    and "distinct (map fst cs)"
  shows "caches_match rq cs = cache_match CACHE_NAME rq cs"
  using assms
proof (induction cs)
  case Nil
  then show ?case by (simp add: cache_match_def)
next
  case (Cons p cs)
  obtain name c where p: "p = (name, c)" by (cases p)
  show ?case
  proof (cases "name = CACHE_NAME")
    case True
    have "caches_match rq cs = None"
      using Cons.prems True p
      by (induction cs) (auto split: option.splits)
    then show ?thesis using True p
      by (simp add: cache_match_def split: option.splits)
  next
    case False
    then show ?thesis using Cons p
      by (auto simp: cache_match_def split: option.splits)
  qed
qed

lemma caches_match_only_shell:
  assumes "shell_only rq cs"
  shows "caches_match rq cs = cache_match CACHE_NAME rq cs"
proof (rule caches_match_elsewhere_empty)
  show "\<forall>(name, c) \<in> set cs. name \<noteq> CACHE_NAME \<longrightarrow> map_of c rq = None"
    using assms by (auto simp: shell_only_def list_all_iff)
  show "distinct (map fst cs)"
    using assms by (simp add: shell_only_def)
qed

text \<open>
  A storage filled by the worker alone is of that kind for every CDN request, and the
  listener keeps it so.
\<close>

lemma names_differ: "CACHE_NAME \<noteq> API_CACHE"
  by (simp add: CACHE_NAME_def API_CACHE_def)

lemma own_storage_empty: "own_storage own []"
  by (simp add: own_storage_def)

lemma own_storage_shell_only:
  assumes "own_storage own cs" and "classify own rq = ExternalCDN"
  shows "shell_only rq cs"
proof -
  have "map_of c rq = None" if "list_all (\<lambda>(q, r). classify own q = GeoDataAPI) c"
    for c :: cache
  proof -
    have "rq \<notin> fst ` set c"
      using that assms(2) by (auto simp: list_all_iff)
    then show ?thesis by (simp add: map_of_eq_None_iff)
  qed
  then show ?thesis
    using assms(1) unfolding own_storage_def shell_only_def list_all_iff by fastforce
qed

lemma map_fst_map_entry: "map fst (AList.map_entry k f xs) = map fst xs"
  by (induction xs) auto

lemma own_storage_open:
  "name = CACHE_NAME \<or> name = API_CACHE \<Longrightarrow> own_storage own cs \<Longrightarrow>
     own_storage own (caches_open name cs)"
  by (auto simp: own_storage_def caches_open_def)

lemma list_all_map_entry:
  assumes "list_all (\<lambda>(n, c). P n c) cs" and "\<And>c. P k c \<Longrightarrow> P k (f c)"
  shows "list_all (\<lambda>(n, c). P n c) (AList.map_entry k f cs)"
  using assms by (induction cs) auto

lemma own_storage_put_shell:
  assumes "own_storage own cs"
  shows "own_storage own (cache_put CACHE_NAME rq rs cs)"
proof -
  let ?P = "\<lambda>n c. n = CACHE_NAME
    \<or> (n = API_CACHE \<and> list_all (\<lambda>(q, r). classify own q = GeoDataAPI) c)"
  have "list_all (\<lambda>(n, c). ?P n c) (AList.map_entry CACHE_NAME (AList.update rq rs) cs)"
    using assms by (intro list_all_map_entry) (simp_all add: own_storage_def)
  then show ?thesis
    using assms by (simp add: own_storage_def cache_put_def map_fst_map_entry)
qed

lemma update_all_geo:
  "classify own rq = GeoDataAPI \<Longrightarrow> list_all (\<lambda>(q, r). classify own q = GeoDataAPI) c \<Longrightarrow>
     list_all (\<lambda>(q, r). classify own q = GeoDataAPI) (AList.update rq rs c)"
  by (induction c) auto

lemma own_storage_put_api:
  assumes "classify own rq = GeoDataAPI" and "own_storage own cs"
  shows "own_storage own (cache_put API_CACHE rq rs cs)"
proof -
  let ?P = "\<lambda>n c. n = CACHE_NAME
    \<or> (n = API_CACHE \<and> list_all (\<lambda>(q, r). classify own q = GeoDataAPI) c)"
  have "list_all (\<lambda>(n, c). ?P n c) (AList.map_entry API_CACHE (AList.update rq rs) cs)"
    using assms by (intro list_all_map_entry) (auto simp: own_storage_def update_all_geo)
  then show ?thesis
    using assms(2) by (simp add: own_storage_def cache_put_def map_fst_map_entry)
qed

lemma own_storage_kept:
  assumes "own_storage (location_origin h) cs"
  shows "own_storage (location_origin h) (snd (fetch_listener h rq cs))"
proof (cases "classify (location_origin h) rq")
  case Ignored
  then show ?thesis using assms by (simp add: fetch_listener_algorithm)
next
  case LocalDevAPI
  then show ?thesis using assms by (simp add: fetch_listener_algorithm)
next
  case GeoDataAPI
  then show ?thesis using assms
    by (simp add: fetch_listener_algorithm networkFirstWithCache_def networkFirst_catch_def
        Let_def own_storage_open own_storage_put_api
        split: fetch_result.splits option.splits)
next
  case ExternalCDN
  then show ?thesis using assms
    by (simp add: fetch_listener_algorithm cacheFirst_def own_storage_open own_storage_put_shell
        split: fetch_result.splits option.splits)
next
  case SameOriginShell
  then show ?thesis using assms
    by (simp add: fetch_listener_algorithm staleWhileRevalidate_def Let_def own_storage_open
        own_storage_put_shell split: fetch_result.splits option.splits prod.splits)
qed

lemma cache_first_listener:
  assumes "classify (location_origin h) rq = ExternalCDN"
  shows "fetch_listener h rq cs =
      (case caches_match rq cs of
         Some cached \<Rightarrow> (RespondWith (Some cached), cs)
       | None \<Rightarrow>
           (case fetch h rq of
              Resolved rs \<Rightarrow>
                (RespondWith (Some rs),
                 if ok rs then cache_put CACHE_NAME rq rs (caches_open CACHE_NAME cs) else cs)
            | Rejected \<Rightarrow> (RespondWith (Some offline_503), cs)))"
  using assms
  by (simp add: fetch_listener_algorithm cacheFirst_def
      split: option.splits fetch_result.splits)

text \<open>
  C2, as stated, fails: an ok response is not always stored. \<^verbatim>\<open>cache.put\<close> refuses a
  response of status 206, which is ok, and the worker stores nothing: for a CDN request
  answered with partial content the listener returns the response and leaves the shell
  store empty, where the claim has a copy stored.
\<close>

theorem cache_first_partial_content_counterexample:
  "classify (location_origin (online_host partial_answer 0)) cdn_request = ExternalCDN
   \<and> cache_match CACHE_NAME cdn_request [] = None
   \<and> fetch (online_host partial_answer 0) cdn_request = Resolved partial_answer
   \<and> ok partial_answer
   \<and> fetch_listener (online_host partial_answer 0) cdn_request [] =
       (RespondWith (Some partial_answer), [(CACHE_NAME, [])])
   \<and> cache_match CACHE_NAME cdn_request
        (snd (fetch_listener (online_host partial_answer 0) cdn_request [])) = None
   \<and> cacheFirst_spec (online_host partial_answer 0) cdn_request [] =
       (partial_answer, [(CACHE_NAME, [(cdn_request, partial_answer)])])"
  by (simp add: eval_defs partial_answer_def cacheFirst_spec_def store_put_def)

text \<open>
  C2, amended. For an external-CDN request, on a storage where no store but the shell
  store holds the request (as in any storage the worker alone has filled): an entry of the
  shell store is returned and the storage is unchanged. On a miss the network is fetched.
  An ok response that the store accepts is put in the shell store, where a lookup then
  finds it, and is returned; an ok response that the store refuses (status 206, a request
  that is not a \<^verbatim>\<open>GET\<close>, \<^verbatim>\<open>Vary: *\<close>) is returned and the shell store, opened, holds
  what it held; a response that is not ok is returned and the storage is unchanged; a
  rejected fetch gives status 503 with body \<^verbatim>\<open>Offline\<close> as plain text.
\<close>

theorem cache_first_result:
  assumes "classify (location_origin h) rq = ExternalCDN"
    and "shell_only rq cs"
  shows "(cache_match CACHE_NAME rq cs = Some cached \<longrightarrow>
        fetch_listener h rq cs = (RespondWith (Some cached), cs))
    \<and> (cache_match CACHE_NAME rq cs = None \<and> fetch h rq = Resolved rs \<and> ok rs
         \<and> put_accepts rq rs \<longrightarrow>
        fst (fetch_listener h rq cs) = RespondWith (Some rs)
        \<and> cache_match CACHE_NAME rq (snd (fetch_listener h rq cs)) = Some rs)
    \<and> (cache_match CACHE_NAME rq cs = None \<and> fetch h rq = Resolved rs \<and> ok rs
         \<and> \<not> put_accepts rq rs \<longrightarrow>
        fetch_listener h rq cs = (RespondWith (Some rs), caches_open CACHE_NAME cs)
        \<and> cache_match CACHE_NAME rq (snd (fetch_listener h rq cs)) = None)
    \<and> (cache_match CACHE_NAME rq cs = None \<and> fetch h rq = Resolved rs \<and> \<not> ok rs \<longrightarrow>
        fetch_listener h rq cs = (RespondWith (Some rs), cs))
    \<and> (cache_match CACHE_NAME rq cs = None \<and> fetch h rq = Rejected \<longrightarrow>
        fetch_listener h rq cs =
          (RespondWith (Some \<lparr>status = 503,
             headers = [(''content-type'', ''text/plain;charset=UTF-8'')],
             body_text = ''Offline''\<rparr>), cs))"
proof -
  have m: "caches_match rq cs = cache_match CACHE_NAME rq cs"
    using assms(2) by (rule caches_match_only_shell)
  note l = cache_first_listener [OF assms(1), of cs, unfolded m]
  have 1: "fetch_listener h rq cs = (RespondWith (Some cached), cs)"
    if "cache_match CACHE_NAME rq cs = Some cached"
    using that l by simp
  have 2: "fst (fetch_listener h rq cs) = RespondWith (Some rs)
      \<and> cache_match CACHE_NAME rq (snd (fetch_listener h rq cs)) = Some rs"
    if "cache_match CACHE_NAME rq cs = None" "fetch h rq = Resolved rs" "ok rs" "put_accepts rq rs"
    using that l by (simp add: cache_match_put_open)
  have 3: "fetch_listener h rq cs = (RespondWith (Some rs), caches_open CACHE_NAME cs)
      \<and> cache_match CACHE_NAME rq (snd (fetch_listener h rq cs)) = None"
    if "cache_match CACHE_NAME rq cs = None" "fetch h rq = Resolved rs" "ok rs"
      "\<not> put_accepts rq rs"
    using that l by (simp add: cache_put_def cache_match_open)
  have 4: "fetch_listener h rq cs = (RespondWith (Some rs), cs)"
    if "cache_match CACHE_NAME rq cs = None" "fetch h rq = Resolved rs" "\<not> ok rs"
    using that l by simp
  have 5: "fetch_listener h rq cs =
      (RespondWith (Some \<lparr>status = 503,
         headers = [(''content-type'', ''text/plain;charset=UTF-8'')],
         body_text = ''Offline''\<rparr>), cs)"
    if "cache_match CACHE_NAME rq cs = None" "fetch h rq = Rejected"
    using that l by (simp add: offline_503_eval)
  from 1 2 3 4 5 show ?thesis by blast
qed

text \<open>
  Runs of the amended C2, one for each case: a hit, a miss with an ok answer, a miss with
  partial content, a miss with a 404, and a miss with the network down.
\<close>

theorem cache_first_result_witness:
  "classify sample_origin cdn_request = ExternalCDN
   \<and> shell_only cdn_request [(CACHE_NAME, [(cdn_request, cdn_old)])]
   \<and> shell_only cdn_request []
   \<and> fetch_listener (online_host cdn_answer 0) cdn_request [(CACHE_NAME, [(cdn_request, cdn_old)])] =
       (RespondWith (Some cdn_old), [(CACHE_NAME, [(cdn_request, cdn_old)])])
   \<and> ok cdn_answer \<and> put_accepts cdn_request cdn_answer
   \<and> fst (fetch_listener (online_host cdn_answer 0) cdn_request []) = RespondWith (Some cdn_answer)
   \<and> cache_match CACHE_NAME cdn_request
        (snd (fetch_listener (online_host cdn_answer 0) cdn_request [])) = Some cdn_answer
   \<and> ok partial_answer \<and> \<not> put_accepts cdn_request partial_answer
   \<and> fetch_listener (online_host partial_answer 0) cdn_request [] =
       (RespondWith (Some partial_answer), [(CACHE_NAME, [])])
   \<and> \<not> ok cdn_missing
   \<and> fetch_listener (online_host cdn_missing 0) cdn_request [] =
       (RespondWith (Some cdn_missing), [])
   \<and> fetch_listener (offline_host 0) cdn_request [] =
       (RespondWith (Some \<lparr>status = 503,
          headers = [(''content-type'', ''text/plain;charset=UTF-8'')],
          body_text = ''Offline''\<rparr>), [])"
proof -
  have c: "classify (location_origin (online_host rs 0)) cdn_request = ExternalCDN" for rs
    by (simp add: eval_defs)
  have c': "classify (location_origin (offline_host 0)) cdn_request = ExternalCDN"
    by (simp add: eval_defs)
  have c0: "classify sample_origin cdn_request = ExternalCDN"
    by (simp add: eval_defs)
  have s1: "shell_only cdn_request [(CACHE_NAME, [(cdn_request, cdn_old)])]"
    by (simp add: shell_only_def)
  have s0: "shell_only cdn_request []"
    by (simp add: shell_only_def)
  have m1: "cache_match CACHE_NAME cdn_request [(CACHE_NAME, [(cdn_request, cdn_old)])] =
      Some cdn_old"
    by (simp add: cache_match_def)
  have m0: "cache_match CACHE_NAME cdn_request [] = None"
    by (simp add: cache_match_def)
  have f: "fetch (online_host rs 0) cdn_request = Resolved rs" for rs
    by (simp add: online_host_def)
  have f': "fetch (offline_host 0) cdn_request = Rejected"
    by (simp add: offline_host_def)
  have k: "ok cdn_answer" "ok partial_answer" "\<not> ok cdn_missing"
    by (simp_all add: ok_def cdn_answer_def partial_answer_def cdn_missing_def)
  have p: "put_accepts cdn_request cdn_answer" "\<not> put_accepts cdn_request partial_answer"
    by (simp_all add: put_accepts_def vary_star_def startsWith_def cdn_request_def
        cdn_answer_def partial_answer_def)
  have o: "caches_open CACHE_NAME [] = [(CACHE_NAME, [])]"
    by (simp add: caches_open_def)
  note hit = cache_first_result [OF c s1, where cached = cdn_old and rs = cdn_answer]
  note stored = cache_first_result [OF c s0, where cached = cdn_old and rs = cdn_answer]
  note refused = cache_first_result [OF c s0, where cached = cdn_old and rs = partial_answer]
  note missing = cache_first_result [OF c s0, where cached = cdn_old and rs = cdn_missing]
  note down = cache_first_result [OF c' s0, where cached = cdn_old and rs = cdn_old]
  have r1: "fetch_listener (online_host cdn_answer 0) cdn_request
      [(CACHE_NAME, [(cdn_request, cdn_old)])] =
      (RespondWith (Some cdn_old), [(CACHE_NAME, [(cdn_request, cdn_old)])])"
    using hit [THEN conjunct1] m1 by (rule mp)
  have r2: "fst (fetch_listener (online_host cdn_answer 0) cdn_request []) =
        RespondWith (Some cdn_answer)
      \<and> cache_match CACHE_NAME cdn_request
        (snd (fetch_listener (online_host cdn_answer 0) cdn_request [])) = Some cdn_answer"
    using stored [THEN conjunct2, THEN conjunct1] m0 f [of cdn_answer] k(1) p(1) by blast
  have r3: "fetch_listener (online_host partial_answer 0) cdn_request [] =
      (RespondWith (Some partial_answer), [(CACHE_NAME, [])])"
    using refused [THEN conjunct2, THEN conjunct2, THEN conjunct1]
      m0 f [of partial_answer] k(2) p(2) unfolding o by blast
  have r4: "fetch_listener (online_host cdn_missing 0) cdn_request [] =
      (RespondWith (Some cdn_missing), [])"
    using missing [THEN conjunct2, THEN conjunct2, THEN conjunct2, THEN conjunct1]
      m0 f [of cdn_missing] k(3) by blast
  have r5: "fetch_listener (offline_host 0) cdn_request [] =
      (RespondWith (Some \<lparr>status = 503,
         headers = [(''content-type'', ''text/plain;charset=UTF-8'')],
         body_text = ''Offline''\<rparr>), [])"
    using down [THEN conjunct2, THEN conjunct2, THEN conjunct2, THEN conjunct2] m0 f' by blast
  from c0 s1 s0 r1 k(1) p(1) r2 [THEN conjunct1] r2 [THEN conjunct2] k(2) p(2) r3 k(3) r4 r5
  show ?thesis
    by (intro conjI)
qed

subsection \<open>Stale-while-revalidate\<close>

lemma swr_fst:
  "fst (staleWhileRevalidate h rq cs) =
     (case cache_match CACHE_NAME rq cs of
        Some cached \<Rightarrow> Some cached
      | None \<Rightarrow> (case fetch h rq of Resolved rs \<Rightarrow> Some rs | Rejected \<Rightarrow> None))"
  by (simp add: staleWhileRevalidate_def Let_def cache_match_open
      split: option.splits fetch_result.splits prod.splits)

text \<open>
  C3. For a same-origin request, an entry of the shell store is the answer whatever the
  network does; with no entry the answer is the network's response, and when the fetch is
  rejected it is the cached value, which is then absent.
\<close>

theorem stale_while_revalidate_result:
  assumes "classify (location_origin h) rq = SameOriginShell"
  shows "fst (fetch_listener h rq cs) =
      RespondWith
        (case cache_match CACHE_NAME rq cs of
           Some cached \<Rightarrow> Some cached
         | None \<Rightarrow>
             (case fetch h rq of
                Resolved rs \<Rightarrow> Some rs
              | Rejected \<Rightarrow> cache_match CACHE_NAME rq cs))"
proof (cases "cache_match CACHE_NAME rq cs")
  case None
  then show ?thesis using assms
    by (simp add: fetch_listener_algorithm swr_fst split: fetch_result.splits)
next
  case (Some cached)
  then show ?thesis using assms
    by (simp add: fetch_listener_algorithm swr_fst)
qed

text \<open>A run of C3: the shell store holds the page and the network is down.\<close>

theorem stale_while_revalidate_result_witness:
  "classify (location_origin (offline_host 0)) shell_request = SameOriginShell
   \<and> fst (fetch_listener (offline_host 0) shell_request
        [(CACHE_NAME, [(shell_request, shell_entry)])]) = RespondWith (Some shell_entry)"
proof -
  have c: "classify (location_origin (offline_host 0)) shell_request = SameOriginShell"
    by (simp add: eval_defs)
  show ?thesis
    using stale_while_revalidate_result [OF c, of "[(CACHE_NAME, [(shell_request, shell_entry)])]"] c
    by (simp add: cache_match_def)
qed

text \<open>
  C5 fails on stale-while-revalidate: with nothing cached and the fetch rejected, the
  promise given to \<^verbatim>\<open>respondWith\<close> resolves to \<^verbatim>\<open>undefined\<close>; no response, synthetic
  or other, reaches the page.
\<close>

theorem stale_while_revalidate_no_response:
  "classify (location_origin (offline_host 0)) shell_request = SameOriginShell
   \<and> fetch (offline_host 0) shell_request = Rejected
   \<and> fetch_listener (offline_host 0) shell_request [] = (RespondWith None, [(CACHE_NAME, [])])"
  by (simp add: eval_defs)

text \<open>The other three strategies answer with a response whatever the network does.\<close>

lemma other_strategies_respond:
  assumes "classify (location_origin h) rq \<in> {LocalDevAPI, GeoDataAPI, ExternalCDN}"
  shows "\<exists>rs. fst (fetch_listener h rq cs) = RespondWith (Some rs)"
  using assms by (auto simp: fetch_listener_algorithm)

subsection \<open>Network-only\<close>

text \<open>
  C6. For a request classified local-dev-API (a loopback hostname on an \<^verbatim>\<open>http\<close> URL) the
  cache storage is left as it was, the network's response is passed on, and a rejected
  fetch is answered with the JSON stub, byte for byte.
\<close>

theorem local_dev_network_only:
  assumes "classify (location_origin h) rq = LocalDevAPI"
  shows \<open>snd (fetch_listener h rq cs) = cs
    \<and> fst (fetch_listener h rq cs) =
        RespondWith (Some
          (case fetch h rq of
             Resolved rs \<Rightarrow> rs
           | Rejected \<Rightarrow>
               \<lparr>status = 200, headers = [(''content-type'', ''application/json'')],
                body_text = ''{"error":"Servidor offline","ok":false}''\<rparr>))\<close>
  using assms
  by (simp add: fetch_listener_algorithm networkOnly_def server_offline_eval
      split: fetch_result.splits)

text \<open>A run of C6: the scraping server is down.\<close>

theorem local_dev_network_only_witness:
  \<open>classify (location_origin (offline_host 0)) local_request = LocalDevAPI
   \<and> fetch_listener (offline_host 0) local_request [(CACHE_NAME, [])] =
       (RespondWith (Some \<lparr>status = 200, headers = [(''content-type'', ''application/json'')],
          body_text = ''{"error":"Servidor offline","ok":false}''\<rparr>), [(CACHE_NAME, [])])\<close>
proof -
  have c: "classify (location_origin (offline_host 0)) local_request = LocalDevAPI"
    by (simp add: eval_defs)
  have f: "fetch (offline_host 0) local_request = Rejected"
    by (simp add: offline_host_def)
  show ?thesis
    using local_dev_network_only [OF c, of "[(CACHE_NAME, [])]"] c
    by (simp add: f prod_eq_iff)
qed

lemma classify_local_dev:
  "classify own rq = LocalDevAPI \<longleftrightarrow>
     startsWith (url rq) ''http'' \<and> (hostname rq = ''localhost'' \<or> hostname rq = ''127.0.0.1'')"
  by (simp add: classify_unfold non_http_def loopback_def)

subsection \<open>The missing stamp\<close>

lemma parseInt_zero: "parseInt ''0'' = Some 0"
  by (simp add: parseInt_def isWhiteSpace_def is_digit_in_def digit_value_def Let_def)

lemma cachedAt_missing:
  "map_of (headers cached) ''sw-cached-at'' = None \<Longrightarrow> cachedAt cached = Some 0"
  by (simp add: cachedAt_def parseInt_zero)

text \<open>At any reading of the clock: the entry is the answer in the first 30 minutes only.\<close>

lemma missing_stamp_any_clock:
  assumes "classify (location_origin h) rq = GeoDataAPI"
    and "fetch_failed h rq"
    and "cache_match API_CACHE rq cs = Some cached"
    and "map_of (headers cached) ''sw-cached-at'' = None"
  shows "fst (fetch_listener h rq cs) =
      RespondWith (Some (if Date_now h < 30 * 60 * 1000 then cached else offline_stub))"
proof -
  have z: "cachedAt cached = Some 0"
    using assms(4) by (rule cachedAt_missing)
  have "fst (fetch_listener h rq cs) =
      RespondWith (Some (fst (networkFirst_catch h rq API_CACHE TTL cs)))"
    using assms(1,2) by (simp add: fetch_listener_algorithm networkFirst_failed)
  then show ?thesis
    using assms(3) z by (simp add: catch_fst fresh_def TTL_def)
qed

text \<open>
  C8. An entry of the API store without the \<^verbatim>\<open>sw-cached-at\<close> header is read as stored at
  time 0. On a host whose clock reads 30 minutes or more past the epoch, as the clock of
  any host in use does, the entry is stale, and on a failed fetch the offline stub is the
  answer in its place.
\<close>

theorem missing_stamp_stale:
  assumes "classify (location_origin h) rq = GeoDataAPI"
    and "fetch_failed h rq"
    and "cache_match API_CACHE rq cs = Some cached"
    and "map_of (headers cached) ''sw-cached-at'' = None"
    and "30 * 60 * 1000 \<le> Date_now h"
  shows "cachedAt cached = Some 0
    \<and> \<not> fresh (Date_now h) (30 * 60 * 1000) cached
    \<and> fst (fetch_listener h rq cs) = RespondWith (Some offline_stub)"
proof -
  have z: "cachedAt cached = Some 0"
    using assms(4) by (rule cachedAt_missing)
  have s: "\<not> fresh (Date_now h) (30 * 60 * 1000) cached"
    using z assms(5) by (simp add: fresh_def)
  have "fst (fetch_listener h rq cs) = RespondWith (Some offline_stub)"
    using missing_stamp_any_clock [OF assms(1-4)] assms(5) by simp
  with z s show ?thesis by blast
qed

text \<open>A run of C8, on a clock of the year 2023.\<close>

theorem missing_stamp_stale_witness:
  "classify (location_origin (offline_host 1700001000000)) geo_request = GeoDataAPI
   \<and> fetch_failed (offline_host 1700001000000) geo_request
   \<and> cache_match API_CACHE geo_request [(API_CACHE, [(geo_request, bare_entry)])] = Some bare_entry
   \<and> map_of (headers bare_entry) ''sw-cached-at'' = None
   \<and> 30 * 60 * 1000 \<le> Date_now (offline_host 1700001000000)
   \<and> cachedAt bare_entry = Some 0
   \<and> fst (fetch_listener (offline_host 1700001000000) geo_request
        [(API_CACHE, [(geo_request, bare_entry)])]) = RespondWith (Some offline_stub)"
proof -
  have c: "classify (location_origin (offline_host 1700001000000)) geo_request = GeoDataAPI"
    by (simp add: eval_defs)
  have f: "fetch_failed (offline_host 1700001000000) geo_request"
    by (simp add: eval_defs)
  have m: "cache_match API_CACHE geo_request [(API_CACHE, [(geo_request, bare_entry)])] =
      Some bare_entry"
    by (simp add: cache_match_def)
  have n: "map_of (headers bare_entry) ''sw-cached-at'' = None"
    by (simp add: bare_entry_def)
  have d: "30 * 60 * 1000 \<le> Date_now (offline_host 1700001000000)"
    by (simp add: offline_host_def)
  note run = missing_stamp_stale [OF c f m n d]
  from c f m n d run [THEN conjunct1] run [THEN conjunct2, THEN conjunct2] show ?thesis
    by (intro conjI)
qed

subsection \<open>Activation\<close>

lemma fold_caches_delete:
  "fold caches_delete ks cs = filter (\<lambda>p. fst p \<notin> set ks) cs"
proof (induction ks arbitrary: cs)
  case Nil
  then show ?case by simp
next
  case (Cons k ks)
  have "caches_delete k cs = filter (\<lambda>p. fst p \<noteq> k) cs"
    unfolding caches_delete_def by (induction cs) auto
  then show ?case
    using Cons.IH [of "caches_delete k cs"] by (auto intro: filter_cong)
qed

lemma activate_snd:
  "snd (activate shell api cs) = filter (\<lambda>(name, c). name = shell \<or> name = api) cs"
proof -
  have "snd (activate shell api cs) =
      filter (\<lambda>p. fst p \<notin> set (filter (\<lambda>k. k \<noteq> shell \<and> k \<noteq> api) (map fst cs))) cs"
    by (simp add: activate_def Let_def caches_keys_def fold_caches_delete)
  also have "\<dots> = filter (\<lambda>(name, c). name = shell \<or> name = api) cs"
    by (rule filter_cong) auto
  finally show ?thesis .
qed

lemma map_of_filter_key:
  "P k \<Longrightarrow> map_of (filter (\<lambda>(name, c). P name) cs) k = map_of cs k"
  by (induction cs) auto

text \<open>
  C7. On activation the stores that remain are those named by one of the two current
  names, with their contents; every other name of the storage is deleted, and nothing
  else is; the claim of the clients is the last step. From the three stores of the
  example only the orphan is deleted. The listener is \<open>activate\<close> at the two constants of
  the module.
\<close>

theorem activate_purges:
  "snd (activate shell api cs) = filter (\<lambda>(name, c). name = shell \<or> name = api) cs
   \<and> {k. Delete k \<in> set (fst (activate shell api cs))} = set (caches_keys cs) - {shell, api}
   \<and> set (caches_keys (snd (activate shell api cs))) = set (caches_keys cs) \<inter> {shell, api}
   \<and> map_of (snd (activate shell api cs)) shell = map_of cs shell
   \<and> map_of (snd (activate shell api cs)) api = map_of cs api
   \<and> last (fst (activate shell api cs)) = Claim
   \<and> Claim \<notin> set (butlast (fst (activate shell api cs)))
   \<and> activate ''v1-shell'' ''v1-api''
        [(''v1-shell'', a), (''v1-api'', b), (''v0-shell-orphan'', c)] =
       ([Delete ''v0-shell-orphan'', Claim], [(''v1-shell'', a), (''v1-api'', b)])
   \<and> snd (activate_listener cs) =
       filter (\<lambda>(name, c). name = CACHE_NAME \<or> name = API_CACHE) cs"
proof -
  have 1: "snd (activate shell api cs) = filter (\<lambda>(name, c). name = shell \<or> name = api) cs"
    by (rule activate_snd)
  have 2: "{k. Delete k \<in> set (fst (activate shell api cs))} = set (caches_keys cs) - {shell, api}"
    by (auto simp: activate_def Let_def)
  have 3: "set (caches_keys (snd (activate shell api cs))) = set (caches_keys cs) \<inter> {shell, api}"
    unfolding 1 by (auto simp: caches_keys_def)
  have 4: "map_of (snd (activate shell api cs)) shell = map_of cs shell"
    unfolding 1 by (rule map_of_filter_key) simp
  have 5: "map_of (snd (activate shell api cs)) api = map_of cs api"
    unfolding 1 by (rule map_of_filter_key) simp
  have 6: "last (fst (activate shell api cs)) = Claim"
    by (simp add: activate_def Let_def)
  have 7: "Claim \<notin> set (butlast (fst (activate shell api cs)))"
    by (auto simp: activate_def Let_def butlast_append)
  have 8: "activate ''v1-shell'' ''v1-api''
        [(''v1-shell'', a), (''v1-api'', b), (''v0-shell-orphan'', c)] =
       ([Delete ''v0-shell-orphan'', Claim], [(''v1-shell'', a), (''v1-api'', b)])"
    by (simp add: activate_def Let_def caches_keys_def caches_delete_def AList.delete_eq)
  have 9: "snd (activate_listener cs) =
       filter (\<lambda>(name, c). name = CACHE_NAME \<or> name = API_CACHE) cs"
    by (simp add: activate_listener_def activate_snd)
  from 1 2 3 4 5 6 7 8 9 show ?thesis by blast
qed

subsection \<open>What the stores hold\<close>

lemma all_ok_open: "all_ok (caches_open name cs) = all_ok cs"
  by (simp add: all_ok_def caches_open_def)

lemma update_all_ok:
  "ok rs \<Longrightarrow> list_all (\<lambda>(rq, rs). ok rs) c \<Longrightarrow> list_all (\<lambda>(rq, rs). ok rs) (AList.update rq rs c)"
  by (induction c) auto

lemma all_ok_map_entry:
  "ok rs \<Longrightarrow> all_ok cs \<Longrightarrow> all_ok (AList.map_entry name (AList.update rq rs) cs)"
  unfolding all_ok_def
  by (induction cs) (auto simp: update_all_ok)

lemma all_ok_put: "ok rs \<Longrightarrow> all_ok cs \<Longrightarrow> all_ok (cache_put name rq rs cs)"
  by (simp add: cache_put_def all_ok_map_entry)

lemma new_Response_status: "new_Response b s hs = Some cloned \<Longrightarrow> status cloned = s"
  by (auto simp: new_Response_def split: if_splits)

lemma catch_snd: "snd (networkFirst_catch h rq name ttl cs) = caches_open name cs"
  by (simp add: networkFirst_catch_def Let_def split: option.splits)

lemma cache_match_map_entry:
  "cache_match n q (AList.map_entry n' (AList.update rq rs) cs) =
     (if n = n' \<and> q = rq \<and> n' \<in> set (map fst cs) then Some rs else cache_match n q cs)"
proof (cases "map_of cs n'")
  case None
  then have "n' \<notin> set (map fst cs)"
    by (simp add: map_of_eq_None_iff)
  then show ?thesis using None
    by (simp add: cache_match_def map_of_map_entry)
next
  case (Some c)
  then have "n' \<in> set (map fst cs)"
    by (metis map_of_eq_None_iff option.distinct(1) set_map)
  then show ?thesis using Some
    by (auto simp: cache_match_def map_of_map_entry update_conv')
qed

lemma cache_match_put:
  "cache_match n q (cache_put n' rq rs cs) =
     (if put_accepts rq rs \<and> n = n' \<and> q = rq \<and> n' \<in> set (map fst cs) then Some rs
      else cache_match n q cs)"
  by (simp add: cache_put_def cache_match_map_entry)

lemma all_ok_cacheFirst: "all_ok cs \<Longrightarrow> all_ok (snd (cacheFirst h rq cs))"
  by (simp add: cacheFirst_def all_ok_put all_ok_open split: option.splits fetch_result.splits)

lemma all_ok_swr: "all_ok cs \<Longrightarrow> all_ok (snd (staleWhileRevalidate h rq cs))"
  by (simp add: staleWhileRevalidate_def Let_def all_ok_put all_ok_open
      split: option.splits fetch_result.splits prod.splits)

lemma all_ok_networkFirst: "all_ok cs \<Longrightarrow> all_ok (snd (networkFirstWithCache h rq name ttl cs))"
proof (cases "fetch h rq")
  case Rejected
  then show "all_ok cs \<Longrightarrow> ?thesis"
    by (simp add: networkFirstWithCache_def catch_snd all_ok_open)
next
  case (Resolved rs)
  assume a: "all_ok cs"
  show ?thesis
  proof (cases "ok rs")
    case False
    then show ?thesis using Resolved a
      by (simp add: networkFirstWithCache_def catch_snd all_ok_open)
  next
    case True
    show ?thesis
    proof (cases "new_Response (body_text rs) (status rs)
        (AList.update ''sw-cached-at'' (toString (Date_now h)) (headers rs))")
      case None
      then show ?thesis using Resolved True a
        by (simp add: networkFirstWithCache_def Let_def catch_snd all_ok_open)
    next
      case (Some cloned)
      then have "ok cloned"
        using True new_Response_status [OF Some] by (simp add: ok_def)
      then show ?thesis using Resolved True Some a
        by (simp add: networkFirstWithCache_def Let_def all_ok_put all_ok_open)
    qed
  qed
qed

lemma all_ok_listener: "all_ok cs \<Longrightarrow> all_ok (snd (fetch_listener h rq cs))"
  by (cases "classify (location_origin h) rq")
     (simp_all add: fetch_listener_algorithm all_ok_cacheFirst all_ok_swr all_ok_networkFirst)

lemma written_cacheFirst:
  "cache_match n q (snd (cacheFirst h rq cs)) = Some rs \<Longrightarrow> cache_match n q cs = Some rs \<or> ok rs"
  by (auto simp: cacheFirst_def cache_match_put cache_match_open
      split: option.splits fetch_result.splits if_splits)

lemma written_swr:
  "cache_match n q (snd (staleWhileRevalidate h rq cs)) = Some rs \<Longrightarrow>
     cache_match n q cs = Some rs \<or> ok rs"
  by (auto simp: staleWhileRevalidate_def Let_def cache_match_put cache_match_open
      split: option.splits fetch_result.splits if_splits prod.splits)

lemma written_networkFirst:
  "cache_match n q (snd (networkFirstWithCache h rq name ttl cs)) = Some rs \<Longrightarrow>
     cache_match n q cs = Some rs \<or> ok rs"
proof (cases "fetch h rq")
  case Rejected
  then show "cache_match n q (snd (networkFirstWithCache h rq name ttl cs)) = Some rs \<Longrightarrow> ?thesis"
    by (simp add: networkFirstWithCache_def catch_snd cache_match_open)
next
  case (Resolved r)
  assume a: "cache_match n q (snd (networkFirstWithCache h rq name ttl cs)) = Some rs"
  show ?thesis
  proof (cases "ok r")
    case False
    then show ?thesis using Resolved a
      by (simp add: networkFirstWithCache_def catch_snd cache_match_open)
  next
    case True
    show ?thesis
    proof (cases "new_Response (body_text r) (status r)
        (AList.update ''sw-cached-at'' (toString (Date_now h)) (headers r))")
      case None
      then show ?thesis using Resolved True a
        by (simp add: networkFirstWithCache_def Let_def catch_snd cache_match_open)
    next
      case (Some cloned)
      then have "ok cloned"
        using True new_Response_status [OF Some] by (simp add: ok_def)
      then show ?thesis using Resolved True Some a
        by (auto simp: networkFirstWithCache_def Let_def cache_match_put cache_match_open
            split: if_splits)
    qed
  qed
qed

lemma written_listener:
  "cache_match n q (snd (fetch_listener h rq cs)) = Some rs \<Longrightarrow> cache_match n q cs = Some rs \<or> ok rs"
  by (cases "classify (location_origin h) rq")
     (simp_all add: fetch_listener_algorithm written_cacheFirst written_swr written_networkFirst)

text \<open>
  C10. Whatever the request and the network's answer, an entry found in a store after a
  strategy has run was there before or has an ok status: each of the three writing
  strategies, and the listener as a whole, puts only ok responses. So a cache storage
  that holds only ok responses still does after any request.
\<close>

theorem only_ok_responses_stored:
  "(all_ok cs \<longrightarrow>
      all_ok (snd (cacheFirst h rq cs)) \<and> all_ok (snd (staleWhileRevalidate h rq cs))
      \<and> all_ok (snd (networkFirstWithCache h rq name ttl cs))
      \<and> all_ok (snd (fetch_listener h rq cs)))
   \<and> (cache_match n q (snd (cacheFirst h rq cs)) = Some rs \<longrightarrow>
        cache_match n q cs = Some rs \<or> ok rs)
   \<and> (cache_match n q (snd (staleWhileRevalidate h rq cs)) = Some rs \<longrightarrow>
        cache_match n q cs = Some rs \<or> ok rs)
   \<and> (cache_match n q (snd (networkFirstWithCache h rq name ttl cs)) = Some rs \<longrightarrow>
        cache_match n q cs = Some rs \<or> ok rs)
   \<and> (cache_match n q (snd (fetch_listener h rq cs)) = Some rs \<longrightarrow>
        cache_match n q cs = Some rs \<or> ok rs)"
proof (intro conjI impI)
  show "cache_match n q cs = Some rs \<or> ok rs"
    if "cache_match n q (snd (cacheFirst h rq cs)) = Some rs"
    using that by (rule written_cacheFirst)
  show "cache_match n q cs = Some rs \<or> ok rs"
    if "cache_match n q (snd (staleWhileRevalidate h rq cs)) = Some rs"
    using that by (rule written_swr)
  show "cache_match n q cs = Some rs \<or> ok rs"
    if "cache_match n q (snd (networkFirstWithCache h rq name ttl cs)) = Some rs"
    using that by (rule written_networkFirst)
  show "cache_match n q cs = Some rs \<or> ok rs"
    if "cache_match n q (snd (fetch_listener h rq cs)) = Some rs"
    using that by (rule written_listener)
qed (simp_all add: all_ok_cacheFirst all_ok_swr all_ok_networkFirst all_ok_listener)

text \<open>
  Runs of C10: an ok answer for a CDN request is what cache-first, stale-while-revalidate
  and the listener store, and the stamped copy of an ok answer is what network-first
  stores.
\<close>

theorem only_ok_responses_stored_witness:
  "all_ok []
   \<and> all_ok (snd (fetch_listener (online_host cdn_answer 0) cdn_request []))
   \<and> cache_match CACHE_NAME cdn_request
        (snd (cacheFirst (online_host cdn_answer 0) cdn_request [])) = Some cdn_answer
   \<and> cache_match CACHE_NAME cdn_request
        (snd (staleWhileRevalidate (online_host cdn_answer 0) cdn_request [])) = Some cdn_answer
   \<and> cache_match CACHE_NAME cdn_request
        (snd (fetch_listener (online_host cdn_answer 0) cdn_request [])) = Some cdn_answer
   \<and> ok cdn_answer
   \<and> cache_match API_CACHE geo_request
        (snd (networkFirstWithCache (online_host geo_answer 1700000000000) geo_request
           API_CACHE TTL [])) = Some geo_stored
   \<and> ok geo_stored"
proof -
  have e: "all_ok []"
    by (simp add: all_ok_def)
  have a: "cache_match CACHE_NAME cdn_request
      (snd (cacheFirst (online_host cdn_answer 0) cdn_request [])) = Some cdn_answer"
    by (simp add: eval_defs)
  have b: "cache_match CACHE_NAME cdn_request
      (snd (staleWhileRevalidate (online_host cdn_answer 0) cdn_request [])) = Some cdn_answer"
    by (simp add: eval_defs)
  have c: "cache_match CACHE_NAME cdn_request
      (snd (fetch_listener (online_host cdn_answer 0) cdn_request [])) = Some cdn_answer"
    by (simp add: eval_defs)
  have d: "cache_match API_CACHE geo_request
      (snd (networkFirstWithCache (online_host geo_answer 1700000000000) geo_request
         API_CACHE TTL [])) = Some geo_stored"
    by (simp add: eval_defs geo_stored_def)
  have z: "cache_match n q [] = None" for n q
    by (simp add: cache_match_def)
  show ?thesis
    using only_ok_responses_stored [of "[]" "online_host cdn_answer 0" cdn_request
        API_CACHE TTL CACHE_NAME cdn_request cdn_answer]
      only_ok_responses_stored [of "[]" "online_host geo_answer 1700000000000" geo_request
        API_CACHE TTL API_CACHE geo_request geo_stored]
      e a b c d
    by (simp add: z)
qed

subsection \<open>The push listener\<close>

text \<open>
  C9 fails on a payload that is not JSON: \<^verbatim>\<open>event.data.json()\<close> throws, nothing catches
  it, and no notification is shown. (The test push of the browser's developer tools sends
  plain text.)
\<close>

theorem push_not_json_throws:
  "push_listener (Some NotJSON) = Inl SyntaxError
   \<and> (\<forall>n. push_listener (Some NotJSON) \<noteq> Inr n)"
  by (simp add: push_listener_def)

text \<open>The rest of C9 holds: an absent payload, and one that parses.\<close>

lemma push_absent:
  "push_listener None =
     Inr \<lparr>title = JStr default_title, body = JStr default_body,
          icon = ''/icons/icon-192x192.png'', badge = ''/icons/icon-96x96.png'',
          vibrate = [200, 100, 200], data_url = JStr ''/''\<rparr>"
  by (simp add: push_listener_def showNotification_def or_else_def)

lemma push_parsed:
  "push_listener (Some (Parsed j)) = Inr n \<Longrightarrow>
     title n = or_else (get_prop (or_else (Some j) (JObj [])) ''title'') (JStr default_title)
     \<and> body n = or_else (get_prop (or_else (Some j) (JObj [])) ''body'') (JStr default_body)
     \<and> data_url n = or_else (get_prop (or_else (Some j) (JObj [])) ''url'') (JStr ''/'')"
  by (auto simp: push_listener_def showNotification_def)

lemma push_sample:
  "push_listener (Some (Parsed sample_payload)) =
     Inr \<lparr>title = JStr ''X'', body = JStr ''Y'',
          icon = ''/icons/icon-192x192.png'', badge = ''/icons/icon-96x96.png'',
          vibrate = [200, 100, 200], data_url = JStr ''/z''\<rparr>"
  by (simp add: push_listener_def showNotification_def or_else_def sample_payload_def)

end
